theory Spec2Isabelle
  imports Main
begin

section \<open>Python values, exceptions and the namespace\<close>

text \<open>
  The interpreter of \<^verbatim>\<open>creator/code_interpreter/safe_python.py\<close> runs submitted
  Python text with \<^verbatim>\<open>exec\<close> and \<^verbatim>\<open>eval\<close> against one dictionary,
  \<^verbatim>\<open>self.namespace\<close>, and keeps its own bookkeeping in that same dictionary.

  An exception object is its class name, the names of the classes that class
  derives from, \<^verbatim>\<open>str(e)\<close> and the stack entries that \<^verbatim>\<open>traceback\<close> prints for
  \<^verbatim>\<open>e.__traceback__\<close>.
\<close>

datatype pyexc =
  PyExc (exc_class: string) (exc_bases: "string list") (exc_str: string) (exc_tb: string)

text \<open>
  The values a namespace entry can hold. \<open>PExcInfo e\<close> is the triple
  \<^verbatim>\<open>(type(e), e, e.__traceback__)\<close> that the interpreter stores; \<open>PObj s\<close> is any
  other object, with \<^verbatim>\<open>str(obj) = s\<close>, default truthiness, and not iterable.
\<close>

datatype pyval = PNone | PBool bool | PInt int | PStr string | PExcInfo pyexc | PObj string

type_synonym namespace = "string \<rightharpoonup> pyval"

text \<open>\<^verbatim>\<open>if v:\<close> on a value.\<close>

fun truthy :: "pyval \<Rightarrow> bool" where
  "truthy PNone = False"
| "truthy (PBool b) = b"
| "truthy (PInt i) = (i \<noteq> 0)"
| "truthy (PStr s) = (s \<noteq> [])"
| "truthy (PExcInfo e) = True"
| "truthy (PObj s) = True"

text \<open>\<^verbatim>\<open>d.get(k, default)\<close> and \<^verbatim>\<open>d.pop(k, None)\<close> on the dictionary.\<close>

definition dict_get :: "namespace \<Rightarrow> string \<Rightarrow> pyval \<Rightarrow> pyval" where
  "dict_get d k dflt = (case d k of None \<Rightarrow> dflt | Some v \<Rightarrow> v)"

definition dict_pop :: "namespace \<Rightarrow> string \<Rightarrow> pyval \<times> namespace" where
  "dict_pop d k = (dict_get d k PNone, d(k := None))"

text \<open>Decimal text of an integer, for \<^verbatim>\<open>str\<close> on an \<^verbatim>\<open>int\<close>.\<close>

fun str_nat :: "nat \<Rightarrow> string" where
  "str_nat n = (if n < 10 then [''0123456789'' ! n]
                else str_nat (n div 10) @ [''0123456789'' ! (n mod 10)])"

definition str_int :: "int \<Rightarrow> string" where
  "str_int i = (if i < 0 then CHR ''-'' # str_nat (nat (- i)) else str_nat (nat i))"

section \<open>Syntax trees\<close>

text \<open>
  The node classes that \<^verbatim>\<open>preprocess\<close> tells apart, as \<^verbatim>\<open>ast.parse\<close> builds them.
  \<open>Call f args\<close> has the callee \<open>f\<close> (\<^verbatim>\<open>node.func\<close>) and then its arguments and
  keywords. \<open>Other c t kids\<close> is a node of any other class \<open>c\<close> (\<^verbatim>\<open>Module\<close>,
  \<^verbatim>\<open>Expr\<close>, \<^verbatim>\<open>Assign\<close>, \<^verbatim>\<open>Constant\<close>, \<^verbatim>\<open>AsyncFunctionDef\<close>, ...) with its child
  nodes in field order; \<open>t\<close> is the text \<^verbatim>\<open>ast.unparse\<close> writes for it where it
  stands, parentheses included. The \<^verbatim>\<open>Load\<close>/\<^verbatim>\<open>Store\<close> context nodes are left
  out: they have no children and no check looks at them.
\<close>

datatype ast =
    Import "ast list"
  | ImportFrom "ast list"
  | FunctionDef "ast list"
  | ClassDef "ast list"
  | Call ast "ast list"
  | Name string
  | Attribute ast string
  | Other string string "ast list"

text \<open>\<^verbatim>\<open>ast.iter_child_nodes\<close>.\<close>

fun iter_child_nodes :: "ast \<Rightarrow> ast list" where
  "iter_child_nodes (Import kids) = kids"
| "iter_child_nodes (ImportFrom kids) = kids"
| "iter_child_nodes (FunctionDef kids) = kids"
| "iter_child_nodes (ClassDef kids) = kids"
| "iter_child_nodes (Call f args) = f # args"
| "iter_child_nodes (Name i) = []"
| "iter_child_nodes (Attribute v a) = [v]"
| "iter_child_nodes (Other c t kids) = kids"

text \<open>
  \<^verbatim>\<open>ast.walk\<close>: a queue, started with the root; each node taken from the front
  has its children put at the back. The order is breadth first.
\<close>

function walk_queue :: "ast list \<Rightarrow> ast list" where
  "walk_queue [] = []"
| "walk_queue (n # todo) = n # walk_queue (todo @ iter_child_nodes n)"
  by pat_completeness auto
termination
proof (relation "measure (\<lambda>q. sum_list (map size q) + length q)")
  show "wf (measure (\<lambda>q. sum_list (map size q) + length q))" by simp
next
  fix n :: ast and todo :: "ast list"
  have "sum_list (map size (iter_child_nodes n)) + length (iter_child_nodes n) \<le> size n"
    by (cases n) (simp_all add: size_list_conv_sum_list)
  then show "(todo @ iter_child_nodes n, n # todo)
      \<in> measure (\<lambda>q. sum_list (map size q) + length q)"
    by simp
qed

definition walk :: "ast \<Rightarrow> ast list" where
  "walk tree = walk_queue [tree]"

text \<open>
  \<^verbatim>\<open>ast.unparse\<close> on an expression. An attribute of an integer constant is written
  with a space before the dot (\<^verbatim>\<open>1 .real\<close>, \<^verbatim>\<open>True .real\<close>).
\<close>

fun join_with :: "string \<Rightarrow> string list \<Rightarrow> string" where
  "join_with sep [] = []"
| "join_with sep [x] = x"
| "join_with sep (x # y # ys) = x @ sep @ join_with sep (y # ys)"

fun int_constant :: "ast \<Rightarrow> bool" where
  "int_constant (Other c t kids) =
     (c = ''Constant'' \<and> (t = ''True'' \<or> t = ''False'' \<or>
        (t \<noteq> [] \<and> list_all (\<lambda>ch. ch \<in> set ''0123456789'') t)))"
| "int_constant n = False"

fun unparse :: "ast \<Rightarrow> string" where
  "unparse (Name i) = i"
| "unparse (Attribute v a) = unparse v @ (if int_constant v then '' '' else []) @ ''.'' @ a"
| "unparse (Call f args) = unparse f @ ''('' @ join_with '', '' (map unparse args) @ '')''"
| "unparse (Other c t kids) = t"
| "unparse (Import kids) = []"
| "unparse (ImportFrom kids) = []"
| "unparse (FunctionDef kids) = []"
| "unparse (ClassDef kids) = []"

text \<open>\<^verbatim>\<open>node.__class__.__name__\<close>.\<close>

fun class_name :: "ast \<Rightarrow> string" where
  "class_name (Import kids) = ''Import''"
| "class_name (ImportFrom kids) = ''ImportFrom''"
| "class_name (FunctionDef kids) = ''FunctionDef''"
| "class_name (ClassDef kids) = ''ClassDef''"
| "class_name (Call f args) = ''Call''"
| "class_name (Name i) = ''Name''"
| "class_name (Attribute v a) = ''Attribute''"
| "class_name (Other c t kids) = c"

text \<open>Python's \<^verbatim>\<open>p in s\<close> on strings: \<open>p\<close> occurs in \<open>s\<close> as a contiguous run.\<close>

primrec str_in :: "string \<Rightarrow> string \<Rightarrow> bool" where
  "str_in p [] = (p = [])"
| "str_in p (c # cs) = (take (length p) (c # cs) = p \<or> str_in p cs)"

section \<open>The host interpreter\<close>

text \<open>
  What running a piece of code did, as its caller sees it. \<open>Returns v ns t\<close>: it
  returned \<open>v\<close> after \<open>t\<close> seconds and left the namespace \<open>ns\<close>. \<open>Throws e ns t\<close>:
  it raised \<open>e\<close> after \<open>t\<close> seconds, with the namespace \<open>ns\<close> at that point.
  \<open>Pending ns\<close>: it was still running when the time its caller waits was over (or,
  for a caller that waits without limit, it never returns); \<open>ns\<close> is the namespace
  as it stood then.
\<close>

datatype 'a outcome =
    Returns 'a namespace nat
  | Throws pyexc namespace nat
  | Pending namespace

text \<open>
  The Python runtime and the helpers of this repository that
  \<^verbatim>\<open>safe_python.py\<close> calls but does not define, taken as parameters:
  \<^item> \<open>ast_parse\<close>: \<^verbatim>\<open>ast.parse(query)\<close>, the tree or the exception raised;
  \<^item> \<open>compile_eval\<close>: \<^verbatim>\<open>compile(code, "", "eval")\<close>, \<open>None\<close> when it compiles and the
    exception otherwise;
  \<^item> \<open>exec_code\<close>, \<open>eval_code\<close>: \<^verbatim>\<open>exec(code, namespace)\<close> and
    \<^verbatim>\<open>eval(code, namespace)\<close> under the time still to wait (\<open>None\<close>: no limit);
    the value returned comes with the text written to \<^verbatim>\<open>sys.stdout\<close>;
  \<^item> \<open>split_code_blocks\<close>: \<^verbatim>\<open>creator.utils.split_code_blocks\<close>, whose source is not
    part of the files at hand;
  \<^item> \<open>frames\<close>: the stack entries \<^verbatim>\<open>traceback\<close> prints for an exception raised at the
    given line of \<^verbatim>\<open>safe_python.py\<close>;
  \<^item> \<open>tuple_str\<close>: \<^verbatim>\<open>str\<close> of a stored exception triple (it shows object addresses).
\<close>

record python =
  ast_parse :: "string \<Rightarrow> pyexc + ast"
  compile_eval :: "string \<Rightarrow> pyexc option"
  exec_code :: "string \<Rightarrow> namespace \<Rightarrow> nat option \<Rightarrow> (pyval \<times> string) outcome"
  eval_code :: "string \<Rightarrow> namespace \<Rightarrow> nat option \<Rightarrow> (pyval \<times> string) outcome"
  split_code_blocks :: "string \<Rightarrow> pyexc + string list"
  frames :: "nat \<Rightarrow> string"
  tuple_str :: "pyexc \<Rightarrow> string"

text \<open>The time left to wait after \<open>t\<close> seconds.\<close>

definition spend :: "nat option \<Rightarrow> nat \<Rightarrow> nat option" where
  "spend budget t = map_option (\<lambda>b. b - t) budget"

text \<open>\<^verbatim>\<open>str(v)\<close>.\<close>

fun str_of :: "python \<Rightarrow> pyval \<Rightarrow> string" where
  "str_of py PNone = ''None''"
| "str_of py (PBool b) = (if b then ''True'' else ''False'')"
| "str_of py (PInt i) = str_int i"
| "str_of py (PStr s) = s"
| "str_of py (PExcInfo e) = tuple_str py e"
| "str_of py (PObj s) = s"

text \<open>
  \<^verbatim>\<open>isinstance(e, Exception)\<close> and \<^verbatim>\<open>isinstance(e, SyntaxError)\<close>: the class of the
  exception is the one named, or derives from it.
\<close>

definition is_Exception :: "pyexc \<Rightarrow> bool" where
  "is_Exception e = (''Exception'' \<in> set (exc_class e # exc_bases e))"

definition is_SyntaxError :: "pyexc \<Rightarrow> bool" where
  "is_SyntaxError e = (''SyntaxError'' \<in> set (exc_class e # exc_bases e))"

text \<open>
  \<^verbatim>\<open>"".join(traceback.format_exception(type(e), e, e.__traceback__))\<close>: the header,
  the stack entries, and the last line with the class and the message. (The
  location lines Python prints before the last line of a \<^verbatim>\<open>SyntaxError\<close> count
  among the stack entries.)
\<close>

definition format_exception_only :: "pyexc \<Rightarrow> string" where
  "format_exception_only e =
     (if exc_str e = [] then exc_class e @ [CHR 0x0A]
      else exc_class e @ '': '' @ exc_str e @ [CHR 0x0A])"

definition format_exception :: "pyexc \<Rightarrow> string" where
  "format_exception e =
     ''Traceback (most recent call last):'' @ [CHR 0x0A] @ exc_tb e @ format_exception_only e"

text \<open>
  \<^verbatim>\<open>"".join(traceback.format_exception(*info))\<close> on a value taken from the
  namespace: the trace for a stored triple; for any other value the call raises
  (\<open>None\<close>), since the value cannot be spread into an exception triple.
\<close>

fun format_exc_info :: "pyval \<Rightarrow> string option" where
  "format_exc_info (PExcInfo e) = Some (format_exception e)"
| "format_exc_info v = None"

section \<open>The interpreter\<close>

record interpreter =
  namespace :: namespace
  setup_done :: bool

record result =
  status :: string
  stdout :: pyval
  stderr :: string

definition ALLOWED_FUNCTIONS :: "string list" where
  "ALLOWED_FUNCTIONS = [''create'', ''save'', ''search'', ''CodeSkill'']"

definition ALLOW_METHODS :: "string list" where
  "ALLOW_METHODS =
     [''.show'', ''.test'', ''.run'', ''__add__'', ''__gt__'', ''__lt__'', ''__annotations__'']"

definition TIMEOUT :: nat where
  "TIMEOUT = 1200"

fun is_allowed_function :: "ast \<Rightarrow> bool" where
  "is_allowed_function (Call (Name i) args) = (i \<in> set ALLOWED_FUNCTIONS)"
| "is_allowed_function node = False"

fun is_allowed_method :: "ast \<Rightarrow> bool" where
  "is_allowed_method (Call f args) =
     list_ex (\<lambda>allowed_method. str_in allowed_method (unparse f)) ALLOW_METHODS"
| "is_allowed_method node = False"

fun is_unsafe :: "ast \<Rightarrow> bool" where
  "is_unsafe (Import kids) = True"
| "is_unsafe (ImportFrom kids) = True"
| "is_unsafe (FunctionDef kids) = True"
| "is_unsafe (ClassDef kids) = True"
| "is_unsafe node = False"

fun is_Call :: "ast \<Rightarrow> bool" where
  "is_Call (Call f args) = True"
| "is_Call node = False"

text \<open>The two exceptions that \<^verbatim>\<open>preprocess\<close> raises, at lines 61 and 65 of the file.\<close>

definition unsafe_error :: "python \<Rightarrow> ast \<Rightarrow> pyexc" where
  "unsafe_error py node =
     PyExc ''ValueError'' [''Exception'', ''BaseException'']
       (''Usage of '' @ class_name node @ '' nodes is not allowed'')
       (frames py 61)"

definition call_error :: "python \<Rightarrow> ast \<Rightarrow> pyexc" where
  "call_error py node =
     PyExc ''ValueError'' [''Exception'', ''BaseException'']
       (''Usage of disallowed function/method: '' @ unparse node)
       (frames py 65)"

text \<open>
  The loop of \<^verbatim>\<open>preprocess\<close> over the walked nodes: the first \<^verbatim>\<open>ValueError\<close>
  raised, if any.
\<close>

fun check_nodes :: "python \<Rightarrow> ast list \<Rightarrow> pyexc option" where
  "check_nodes py [] = None"
| "check_nodes py (node # rest) =
     (if is_unsafe node then Some (unsafe_error py node)
      else if is_Call node then
        (if \<not> (is_allowed_function node \<or> is_allowed_method node)
         then Some (call_error py node)
         else check_nodes py rest)
      else check_nodes py rest)"


text \<open>
  The body of the \<^verbatim>\<open>try\<close> of \<^verbatim>\<open>preprocess\<close>: the exception it raises, if any.
  The text is parsed whether or not the setup is done; the nodes are checked only
  after it.
\<close>

definition preprocess_raises :: "python \<Rightarrow> interpreter \<Rightarrow> string \<Rightarrow> pyexc option" where
  "preprocess_raises py self query =
     (case ast_parse py query of
        Inl e \<Rightarrow> Some e
      | Inr tree \<Rightarrow> if setup_done self then check_nodes py (walk tree) else None)"

text \<open>
  \<^verbatim>\<open>preprocess\<close>: the query when every check passes; otherwise the empty string,
  with the exception stored under \<^verbatim>\<open>_preprocess_info\<close>.
\<close>

definition preprocess :: "python \<Rightarrow> interpreter \<Rightarrow> string \<Rightarrow> string \<times> interpreter" where
  "preprocess py self query =
     (case preprocess_raises py self query of
        None \<Rightarrow> (query, self)
      | Some e \<Rightarrow>
          ([], self\<lparr>namespace := (namespace self)(''_preprocess_info'' \<mapsto> PExcInfo e)\<rparr>))"

text \<open>\<^verbatim>\<open>is_expression\<close>: only a \<^verbatim>\<open>SyntaxError\<close> is caught.\<close>

definition is_expression :: "python \<Rightarrow> string \<Rightarrow> pyexc + bool" where
  "is_expression py code =
     (case compile_eval py code of
        None \<Rightarrow> Inr True
      | Some e \<Rightarrow> if is_SyntaxError e then Inr False else Inl e)"

text \<open>
  \<^verbatim>\<open>execute_last_line\<close>: the text of the value (unless it is \<^verbatim>\<open>None\<close>) and then
  what was printed.
\<close>

definition execute_last_line ::
  "python \<Rightarrow> nat option \<Rightarrow> namespace \<Rightarrow> string \<Rightarrow> string outcome" where
  "execute_last_line py budget ns last_line =
     (case is_expression py last_line of
        Inl e \<Rightarrow> Throws e ns 0
      | Inr True \<Rightarrow>
          (case eval_code py last_line ns budget of
             Returns (eval_output, printed_output) ns' t \<Rightarrow>
               Returns ((if eval_output \<noteq> PNone then str_of py eval_output else [])
                        @ printed_output) ns' t
           | Throws e ns' t \<Rightarrow> Throws e ns' t
           | Pending ns' \<Rightarrow> Pending ns')
      | Inr False \<Rightarrow>
          (case exec_code py last_line ns budget of
             Returns (v, printed_output) ns' t \<Rightarrow> Returns printed_output ns' t
           | Throws e ns' t \<Rightarrow> Throws e ns' t
           | Pending ns' \<Rightarrow> Pending ns'))"

text \<open>
  \<^verbatim>\<open>execute_code_blocks\<close>: the blocks in order against one buffer; the first
  exception ends the loop and the buffer is dropped.
\<close>

fun execute_code_blocks ::
  "python \<Rightarrow> nat option \<Rightarrow> namespace \<Rightarrow> string list \<Rightarrow> string outcome" where
  "execute_code_blocks py budget ns [] = Returns [] ns 0"
| "execute_code_blocks py budget ns (block # blocks) =
     (case exec_code py block ns budget of
        Returns (v, printed) ns' t \<Rightarrow>
          (case execute_code_blocks py (spend budget t) ns' blocks of
             Returns output ns'' t' \<Rightarrow> Returns (printed @ output) ns'' (t + t')
           | Throws e ns'' t' \<Rightarrow> Throws e ns'' (t + t')
           | Pending ns'' \<Rightarrow> Pending ns'')
      | Throws e ns' t \<Rightarrow> Throws e ns' t
      | Pending ns' \<Rightarrow> Pending ns')"

text \<open>
  The body of the \<^verbatim>\<open>try\<close> of \<^verbatim>\<open>run_code\<close> up to the point where the output is
  complete (lines 118 to 121).
\<close>

definition run_blocks ::
  "python \<Rightarrow> nat option \<Rightarrow> namespace \<Rightarrow> string list \<Rightarrow> string \<Rightarrow> string outcome" where
  "run_blocks py budget ns code_blocks last_line =
     (case (if length code_blocks > 0 then execute_code_blocks py budget ns code_blocks
            else Returns [] ns 0) of
        Returns output ns' t \<Rightarrow>
          (if last_line \<noteq> [] then
             (case execute_last_line py (spend budget t) ns' last_line of
                Returns output' ns'' t' \<Rightarrow> Returns (output @ output') ns'' (t + t')
              | Throws e ns'' t' \<Rightarrow> Throws e ns'' (t + t')
              | Pending ns'' \<Rightarrow> Pending ns'')
           else Returns output ns' t)
      | Throws e ns' t \<Rightarrow> Throws e ns' t
      | Pending ns' \<Rightarrow> Pending ns')"

text \<open>
  \<^verbatim>\<open>run_code\<close>. \<^verbatim>\<open>split_code_blocks\<close> is called outside the \<^verbatim>\<open>try\<close>, and the
  handler catches \<^verbatim>\<open>Exception\<close> only: any other exception leaves the method.
  The method returns nothing; its effect is on the namespace.
\<close>

definition run_code :: "python \<Rightarrow> nat option \<Rightarrow> namespace \<Rightarrow> string \<Rightarrow> unit outcome" where
  "run_code py budget ns query =
     (case split_code_blocks py query of
        Inl e \<Rightarrow> Throws e ns 0
      | Inr blocks \<Rightarrow>
          (let last_line = (if length blocks > 0 then last blocks else []);
               code_blocks = (if length blocks > 0 then butlast blocks else blocks)
           in case run_blocks py budget ns code_blocks last_line of
                Returns output ns' t \<Rightarrow>
                  (let ns'' = snd (dict_pop ns' ''_stdout_info'')
                   in Returns ()
                        (if output \<noteq> [] then ns''(''_stdout_info'' \<mapsto> PStr output) else ns'') t)
              | Throws e ns' t \<Rightarrow>
                  (if is_Exception e then Returns () (ns'(''_exec_info'' \<mapsto> PExcInfo e)) t
                   else Throws e ns' t)
              | Pending ns' \<Rightarrow> Pending ns'))"

text \<open>The namespace an outcome carries.\<close>

fun ns_of :: "'a outcome \<Rightarrow> namespace" where
  "ns_of (Returns v ns t) = ns"
| "ns_of (Throws e ns t) = ns"
| "ns_of (Pending ns) = ns"

fun is_alive :: "'a outcome \<Rightarrow> bool" where
  "is_alive (Pending ns) = True"
| "is_alive r = False"

text \<open>
  \<^verbatim>\<open>run_with_return\<close>: \<^verbatim>\<open>run_code\<close> on a thread, joined for \<^verbatim>\<open>TIMEOUT\<close> seconds.
  An exception that leaves \<^verbatim>\<open>run_code\<close> ends the thread and goes no further.
  The result is \<open>None\<close> when the method itself raises: \<^verbatim>\<open>format_exception\<close> on
  a value that is no exception triple.
\<close>

definition run_with_return ::
  "python \<Rightarrow> namespace \<Rightarrow> string \<Rightarrow> result option \<times> namespace" where
  "run_with_return py ns query =
     (let thread = run_code py (Some TIMEOUT) ns query;
          ns' = ns_of thread;
          stdout = dict_get ns' ''_stdout_info'' (PStr [])
      in if is_alive thread then
           (Some \<lparr>status = ''error'', stdout = stdout, stderr = ''Code execution timed out''\<rparr>, ns')
         else
           (let (exec_info, ns'') = dict_pop ns' ''_exec_info''
            in if truthy exec_info then
                 (case format_exc_info exec_info of
                    None \<Rightarrow> (None, ns'')
                  | Some tb_lines \<Rightarrow>
                      (Some \<lparr>status = ''error'', stdout = stdout, stderr = tb_lines\<rparr>, ns''))
               else (Some \<lparr>status = ''success'', stdout = stdout, stderr = []\<rparr>, ns'')))"

text \<open>The method \<^verbatim>\<open>_run\<close>, the entry point behind \<^verbatim>\<open>execute\<close>.\<close>

definition tool_run ::
  "python \<Rightarrow> interpreter \<Rightarrow> string \<Rightarrow> result option \<times> interpreter" where
  "tool_run py self query =
     (let (query', self') = preprocess py self query;
          (preprocess_info, ns) = dict_pop (namespace self') ''_preprocess_info''
      in if truthy preprocess_info then
           (case format_exc_info preprocess_info of
              None \<Rightarrow> (None, self'\<lparr>namespace := ns\<rparr>)
            | Some tb_lines \<Rightarrow>
                (Some \<lparr>status = ''error'', stdout = PStr [], stderr = tb_lines\<rparr>,
                 self'\<lparr>namespace := ns\<rparr>))
         else
           (case run_with_return py ns query' of
              (r, ns') \<Rightarrow> (r, self'\<lparr>namespace := ns'\<rparr>)))"

text \<open>
  The method \<^verbatim>\<open>setup\<close>: \<^verbatim>\<open>run_code\<close> on the caller's own thread, with no limit, and
  then the flag. \<open>None\<close>: the call does not return. \<open>Some (Some e, s)\<close>: it raises
  \<open>e\<close> and the flag is not touched. \<open>Some (None, s)\<close>: it returns.
\<close>

definition interpreter_setup ::
  "python \<Rightarrow> interpreter \<Rightarrow> string \<Rightarrow> (pyexc option \<times> interpreter) option" where
  "interpreter_setup py self setup_code =
     (case run_code py None (namespace self) setup_code of
        Returns u ns t \<Rightarrow> Some (None, self\<lparr>namespace := ns, setup_done := True\<rparr>)
      | Throws e ns t \<Rightarrow> Some (Some e, self\<lparr>namespace := ns\<rparr>)
      | Pending ns \<Rightarrow> None)"

section \<open>A host for worked examples\<close>

text \<open>
  What CPython does on a handful of sources, for evaluating the interpreter on
  concrete calls. A source outside the tables is treated as a syntax error; the
  tables say nothing about Python beyond their rows. Every operation takes no
  time, except \<^verbatim>\<open>while True: pass\<close>, which never ends. The stack entries of the
  exceptions raised by the host are left empty.
\<close>

definition module :: "ast list \<Rightarrow> ast" where
  "module body = Other ''Module'' [] body"

definition assign_stmt :: "string \<Rightarrow> int \<Rightarrow> ast" where
  "assign_stmt name v =
     Other ''Assign'' (name @ '' = '' @ str_int v) [Name name, Other ''Constant'' (str_int v) []]"

definition expr_stmt :: "ast \<Rightarrow> ast" where
  "expr_stmt e = Other ''Expr'' (unparse e) [e]"

definition binop :: "ast \<Rightarrow> string \<Rightarrow> string \<Rightarrow> ast \<Rightarrow> ast" where
  "binop l cls op_text r =
     Other ''BinOp'' (unparse l @ '' '' @ op_text @ '' '' @ unparse r) [l, Other cls [] [], r]"

definition int_const :: "int \<Rightarrow> ast" where
  "int_const v = Other ''Constant'' (str_int v) []"

definition import_os :: ast where
  "import_os = Import [Other ''alias'' ''os'' []]"

text \<open>The exceptions the host raises, with the base classes Python gives them.\<close>

definition syntax_error :: pyexc where
  "syntax_error = PyExc ''SyntaxError'' [''Exception'', ''BaseException''] ''invalid syntax'' []"

definition zero_division :: pyexc where
  "zero_division =
     PyExc ''ZeroDivisionError'' [''ArithmeticError'', ''Exception'', ''BaseException'']
       ''division by zero'' []"

definition type_error :: pyexc where
  "type_error =
     PyExc ''TypeError'' [''Exception'', ''BaseException'']
       ''unsupported operand type(s) for +'' []"

definition name_error :: "string \<Rightarrow> pyexc" where
  "name_error name =
     PyExc ''NameError'' [''Exception'', ''BaseException'']
       (''name '' @ [CHR 0x27] @ name @ [CHR 0x27] @ '' is not defined'') []"

definition demo_parse :: "string \<Rightarrow> pyexc + ast" where
  "demo_parse src =
     (if src = ''import os'' then Inr (module [import_os])
      else if src = ''open('/etc/passwd')'' then
        Inr (module [expr_stmt (Call (Name ''open'')
               [Other ''Constant'' (CHR 0x27 # ''/etc/passwd'' @ [CHR 0x27]) []])])
      else if src = ''foo()\<newline>if x:\<newline>    import os'' then
        Inr (module [expr_stmt (Call (Name ''foo'') []),
                     Other ''If'' [] [Name ''x'', import_os]])
      else if src = ''obj.runtime()'' then
        Inr (module [expr_stmt (Call (Attribute (Name ''obj'') ''runtime'') [])])
      else if src = ''x = 5\<newline>x + 1'' then
        Inr (module [assign_stmt ''x'' 5, expr_stmt (binop (Name ''x'') ''Add'' ''+'' (int_const 1))])
      else if src = ''x = 1\<newline>x = 2'' then
        Inr (module [assign_stmt ''x'' 1, assign_stmt ''x'' 2])
      else if src = ''y = 10'' then Inr (module [assign_stmt ''y'' 10])
      else if src = ''y + 5'' then
        Inr (module [expr_stmt (binop (Name ''y'') ''Add'' ''+'' (int_const 5))])
      else if src = ''1/0'' then
        Inr (module [expr_stmt (binop (int_const 1) ''Div'' ''/'' (int_const 0))])
      else if src = ''y = 10\<newline>1/0'' then
        Inr (module [assign_stmt ''y'' 10,
                     expr_stmt (binop (int_const 1) ''Div'' ''/'' (int_const 0))])
      else if src = ''while True: pass'' then
        Inr (module [Other ''While'' [] [Other ''Constant'' ''True'' [], Other ''Pass'' ''pass'' []]])
      else if src = ''_exec_info = 0'' then Inr (module [assign_stmt ''_exec_info'' 0])
      else if src = ''_exec_info = 1'' then Inr (module [assign_stmt ''_exec_info'' 1])
      else if src = ''_preprocess_info = 0'' then Inr (module [assign_stmt ''_preprocess_info'' 0])
      else if src = ''_exec_info'' then Inr (module [expr_stmt (Name ''_exec_info'')])
      else if src = ''_stdout_info'' then Inr (module [expr_stmt (Name ''_stdout_info'')])
      else if src = ''_stdout_info = 7\<newline>1/0'' then
        Inr (module [assign_stmt ''_stdout_info'' 7,
                     expr_stmt (binop (int_const 1) ''Div'' ''/'' (int_const 0))])
      else if src = ''print('a')\<newline>1/0'' then
        Inr (module [expr_stmt (Call (Name ''print'')
                       [Other ''Constant'' [CHR 0x27, CHR ''a'', CHR 0x27] []]),
                     expr_stmt (binop (int_const 1) ''Div'' ''/'' (int_const 0))])
      else if src = ''x = 5'' then Inr (module [assign_stmt ''x'' 5])
      else if src = ''x = 1'' then Inr (module [assign_stmt ''x'' 1])
      else if src = ''x = 2'' then Inr (module [assign_stmt ''x'' 2])
      else if src = ''x + 1'' then
        Inr (module [expr_stmt (binop (Name ''x'') ''Add'' ''+'' (int_const 1))])
      else if src = ''_stdout_info = 7'' then Inr (module [assign_stmt ''_stdout_info'' 7])
      else if src = ''print('a')'' then
        Inr (module [expr_stmt (Call (Name ''print'')
                       [Other ''Constant'' [CHR 0x27, CHR ''a'', CHR 0x27] []])])
      else if src = ''print('p') or ('v')'' then
        Inr (module [expr_stmt
               (Other ''BoolOp'' (''print('p') or '' @ [CHR 0x27, CHR ''v'', CHR 0x27])
                  [Other ''Or'' [] [],
                   Call (Name ''print'') [Other ''Constant'' [CHR 0x27, CHR ''p'', CHR 0x27] []],
                   Other ''Constant'' [CHR 0x27, CHR ''v'', CHR 0x27] []])])
      else if src = ''x = '' then Inl syntax_error
      else Inl syntax_error)"

definition demo_compile_eval :: "string \<Rightarrow> pyexc option" where
  "demo_compile_eval code =
     (if code \<in> set [''x + 1'', ''y + 5'', ''1/0'', ''_exec_info'', ''_stdout_info'',
                     ''obj.runtime()'', ''open('/etc/passwd')'', ''print('p') or ('v')'']
      then None else Some syntax_error)"

text \<open>\<^verbatim>\<open>exec\<close> and \<^verbatim>\<open>eval\<close> put \<^verbatim>\<open>__builtins__\<close> into the dictionary they run in.\<close>

definition with_builtins :: "namespace \<Rightarrow> namespace" where
  "with_builtins ns =
     (case ns ''__builtins__'' of
        None \<Rightarrow> ns(''__builtins__'' \<mapsto> PObj ''<builtins>'')
      | Some b \<Rightarrow> ns)"

text \<open>The one-line assignments of a name to an integer.\<close>

definition demo_assignments :: "(string \<times> string \<times> int) list" where
  "demo_assignments =
     [(''x = 5'', ''x'', 5), (''x = 1'', ''x'', 1), (''x = 2'', ''x'', 2), (''y = 10'', ''y'', 10),
      (''_exec_info = 0'', ''_exec_info'', 0), (''_exec_info = 1'', ''_exec_info'', 1),
      (''_preprocess_info = 0'', ''_preprocess_info'', 0),
      (''_stdout_info = 7'', ''_stdout_info'', 7)]"

definition demo_exec :: "string \<Rightarrow> namespace \<Rightarrow> nat option \<Rightarrow> (pyval \<times> string) outcome" where
  "demo_exec code ns budget =
     (case map_of demo_assignments code of
        Some (name, v) \<Rightarrow> Returns (PNone, []) ((with_builtins ns)(name \<mapsto> PInt v)) 0
      | None \<Rightarrow>
          if code = ''import os'' then
            Returns (PNone, []) ((with_builtins ns)(''os'' \<mapsto> PObj ''<module os>'')) 0
          else if code = ''print('a')'' then Returns (PNone, ''a\<newline>'') (with_builtins ns) 0
          else if code = ''while True: pass'' then Pending (with_builtins ns)
          else Throws syntax_error (with_builtins ns) 0)"

text \<open>A name looked up and an integer added to it, as \<^verbatim>\<open>x + 1\<close> evaluates.\<close>

definition demo_add :: "string \<Rightarrow> int \<Rightarrow> namespace \<Rightarrow> (pyval \<times> string) outcome" where
  "demo_add name k ns =
     (case ns name of
        Some (PInt n) \<Rightarrow> Returns (PInt (n + k), []) (with_builtins ns) 0
      | Some v \<Rightarrow>
          Throws type_error (with_builtins ns) 0
      | None \<Rightarrow> Throws (name_error name) (with_builtins ns) 0)"

definition demo_lookup :: "string \<Rightarrow> namespace \<Rightarrow> (pyval \<times> string) outcome" where
  "demo_lookup name ns =
     (case ns name of
        Some v \<Rightarrow> Returns (v, []) (with_builtins ns) 0
      | None \<Rightarrow> Throws (name_error name) (with_builtins ns) 0)"

definition demo_eval :: "string \<Rightarrow> namespace \<Rightarrow> nat option \<Rightarrow> (pyval \<times> string) outcome" where
  "demo_eval code ns budget =
     (if code = ''x + 1'' then demo_add ''x'' 1 ns
      else if code = ''y + 5'' then demo_add ''y'' 5 ns
      else if code = ''1/0'' then
        Throws zero_division (with_builtins ns) 0
      else if code = ''_exec_info'' then demo_lookup ''_exec_info'' ns
      else if code = ''_stdout_info'' then demo_lookup ''_stdout_info'' ns
      else if code = ''print('p') or ('v')'' then
        Returns (PStr ''v'', ''p\<newline>'') (with_builtins ns) 0
      else Throws syntax_error (with_builtins ns) 0)"

text \<open>\<^verbatim>\<open>str.split\<close> at a separator character, and \<^verbatim>\<open>str.strip\<close>.\<close>

fun split_at :: "char \<Rightarrow> string \<Rightarrow> string list" where
  "split_at sep [] = [[]]"
| "split_at sep (c # cs) =
     (case split_at sep cs of
        [] \<Rightarrow> [[c]]
      | w # ws \<Rightarrow> if c = sep then [] # w # ws else (c # w) # ws)"

definition is_blank :: "char \<Rightarrow> bool" where
  "is_blank c = (c \<in> set [CHR '' '', CHR 0x09, CHR 0x0A, CHR 0x0B, CHR 0x0C, CHR 0x0D])"

definition strip :: "string \<Rightarrow> string" where
  "strip s = rev (dropWhile is_blank (rev (dropWhile is_blank s)))"

fun starts_unindented :: "string \<Rightarrow> bool" where
  "starts_unindented [] = False"
| "starts_unindented (c # cs) = (\<not> is_blank c)"

text \<open>
  Modelled from the spec: \<^verbatim>\<open>creator.utils.split_code_blocks\<close>, whose source is
  not among the files. The spec's Block Splitter partitions the text at top-level
  statement boundaries, in order, never severs a construct into groups that do
  not parse on their own, and returns no group for a text without statements.
  Here the lines are taken from the last to the first; a line that is not
  indented starts a group when the text from it to the start of the group found
  before parses on its own, and the lines of a group are joined as they were.
  \<open>collect_groups parses ls pending codes\<close> has the lines still to visit, last
  first, in \<open>ls\<close>, the lines visited but in no group yet in \<open>pending\<close>, and the
  groups found in \<open>codes\<close>.
\<close>

fun collect_groups ::
  "(string \<Rightarrow> bool) \<Rightarrow> string list \<Rightarrow> string list \<Rightarrow> string list \<Rightarrow> string list" where
  "collect_groups parses [] pending codes = codes"
| "collect_groups parses (l # ls) pending codes =
     (if starts_unindented l \<and> parses (join_with [CHR 0x0A] (l # pending))
      then collect_groups parses ls [] (join_with [CHR 0x0A] (l # pending) # codes)
      else collect_groups parses ls (l # pending) codes)"

definition split_by_parse :: "(string \<Rightarrow> bool) \<Rightarrow> string \<Rightarrow> string list" where
  "split_by_parse parses src =
     collect_groups parses (rev (split_at (CHR 0x0A) (strip src))) [] []"

definition demo_parses :: "string \<Rightarrow> bool" where
  "demo_parses src = (case demo_parse src of Inl e \<Rightarrow> False | Inr tree \<Rightarrow> True)"

definition demo_split :: "string \<Rightarrow> pyexc + string list" where
  "demo_split src = Inr (split_by_parse demo_parses src)"

definition demo_python :: python where
  "demo_python =
     \<lparr>ast_parse = demo_parse, compile_eval = demo_compile_eval, exec_code = demo_exec,
      eval_code = demo_eval, split_code_blocks = demo_split,
      frames = (\<lambda>line. ''  File safe_python.py, line '' @ str_nat line @ [CHR 0x0A]),
      tuple_str = (\<lambda>e. ''('' @ exc_class e @ '', ...)'')\<rparr>"

text \<open>An interpreter after its setup, and one before it, with nothing bound yet.\<close>

definition restricted :: interpreter where
  "restricted = \<lparr>namespace = Map.empty, setup_done = True\<rparr>"

definition unrestricted :: interpreter where
  "unrestricted = \<lparr>namespace = Map.empty, setup_done = False\<rparr>"

text \<open>
  A call \<^verbatim>\<open>execute(source)\<close>, that is \<^verbatim>\<open>_run\<close>, on this host: its result, and
  the interpreter it leaves.
\<close>

definition execute :: "interpreter \<Rightarrow> string \<Rightarrow> result option" where
  "execute self query = fst (tool_run demo_python self query)"

definition after :: "interpreter \<Rightarrow> string \<Rightarrow> interpreter" where
  "after self query = snd (tool_run demo_python self query)"

section \<open>Well-formed bookkeeping\<close>

text \<open>
  What the caller can handle under \<^verbatim>\<open>_exec_info\<close> and \<^verbatim>\<open>_preprocess_info\<close>: nothing
  truthy, or an exception triple. And a value that is a string.
\<close>

fun info_ok :: "pyval \<Rightarrow> bool" where
  "info_ok (PExcInfo e) = True"
| "info_ok v = (\<not> truthy v)"

fun is_str :: "pyval \<Rightarrow> bool" where
  "is_str (PStr s) = True"
| "is_str v = False"

text \<open>
  What the submitted code did on the worker thread: the blocks as split, run up to
  the point where \<^verbatim>\<open>run_code\<close> turns to its own bookkeeping.
\<close>

definition submitted :: "python \<Rightarrow> namespace \<Rightarrow> string list \<Rightarrow> string outcome" where
  "submitted py ns blocks =
     run_blocks py (Some TIMEOUT) ns (butlast blocks) (if blocks = [] then [] else last blocks)"

section \<open>Facts about the helpers\<close>



lemma check_nodes_allowed_call:
  "is_allowed_function (Call f args) \<or> is_allowed_method (Call f args) \<Longrightarrow>
   check_nodes py (Call f args # rest) = check_nodes py rest"
  by simp

lemmas demo_defs = demo_python_def demo_parse_def demo_compile_eval_def demo_exec_def demo_eval_def demo_add_def demo_lookup_def demo_split_def demo_parses_def split_by_parse_def strip_def is_blank_def syntax_error_def zero_division_def type_error_def with_builtins_def restricted_def unrestricted_def module_def assign_stmt_def expr_stmt_def binop_def int_const_def import_os_def demo_assignments_def name_error_def execute_def after_def

lemmas eng_defs = tool_run_def preprocess_def preprocess_raises_def run_with_return_def run_code_def run_blocks_def execute_last_line_def is_expression_def dict_pop_def dict_get_def walk_def format_exception_def format_exception_only_def is_SyntaxError_def is_Exception_def spend_def TIMEOUT_def ALLOWED_FUNCTIONS_def ALLOW_METHODS_def str_int_def unsafe_error_def call_error_def submitted_def






lemma run_blocks_eq:
  "run_blocks py budget ns code_blocks last_line =
     (case execute_code_blocks py budget ns code_blocks of
        Returns output ns' t \<Rightarrow>
          (if last_line \<noteq> [] then
             (case execute_last_line py (spend budget t) ns' last_line of
                Returns output' ns'' t' \<Rightarrow> Returns (output @ output') ns'' (t + t')
              | Throws e ns'' t' \<Rightarrow> Throws e ns'' (t + t')
              | Pending ns'' \<Rightarrow> Pending ns'')
           else Returns output ns' t)
      | Throws e ns' t \<Rightarrow> Throws e ns' t
      | Pending ns' \<Rightarrow> Pending ns')"
  by (cases code_blocks) (simp_all add: run_blocks_def)

lemma run_code_split:
  "split_code_blocks py query = Inr (body @ [tail]) \<Longrightarrow>
   run_code py budget ns query =
     (case run_blocks py budget ns body tail of
        Returns output ns' t \<Rightarrow>
          Returns () (if output \<noteq> [] then ns'(''_stdout_info'' \<mapsto> PStr output)
                      else ns'(''_stdout_info'' := None)) t
      | Throws e ns' t \<Rightarrow>
          (if is_Exception e then Returns () (ns'(''_exec_info'' \<mapsto> PExcInfo e)) t
           else Throws e ns' t)
      | Pending ns' \<Rightarrow> Pending ns')"
  by (simp add: run_code_def dict_pop_def Let_def split: outcome.splits)

lemma run_with_return_success:
  assumes "split_code_blocks py query = Inr (body @ [tail])" and "tail \<noteq> []"
    and "execute_code_blocks py (Some TIMEOUT) ns body = Returns out ns1 t1"
    and "execute_last_line py (spend (Some TIMEOUT) t1) ns1 tail = Returns out' ns2 t2"
    and "\<not> truthy (dict_get ns2 ''_exec_info'' PNone)"
  shows "fst (run_with_return py ns query) =
           Some \<lparr>status = ''success'', stdout = PStr (out @ out'), stderr = []\<rparr>"
proof -
  have "run_blocks py (Some TIMEOUT) ns body tail = Returns (out @ out') ns2 (t1 + t2)"
    using assms(2,3,4) by (simp add: run_blocks_eq)
  then have "run_code py (Some TIMEOUT) ns query =
     Returns () (if out @ out' \<noteq> [] then ns2(''_stdout_info'' \<mapsto> PStr (out @ out'))
                 else ns2(''_stdout_info'' := None)) (t1 + t2)"
    using assms(1) by (simp add: run_code_split)
  then show ?thesis
    using assms(5)
    by (simp add: run_with_return_def dict_pop_def dict_get_def Let_def)
qed

lemma tool_run_accepted:
  assumes "preprocess_raises py self query = None"
    and "\<not> truthy (dict_get (namespace self) ''_preprocess_info'' PNone)"
  shows "tool_run py self query =
           (case run_with_return py ((namespace self)(''_preprocess_info'' := None)) query of
              (r, ns') \<Rightarrow> (r, self\<lparr>namespace := ns'\<rparr>))"
  using assms by (simp add: tool_run_def preprocess_def dict_pop_def)

lemma execute_accepted:
  assumes "preprocess_raises demo_python self query = None"
    and "\<not> truthy (dict_get (namespace self) ''_preprocess_info'' PNone)"
  shows "execute self query =
           fst (run_with_return demo_python ((namespace self)(''_preprocess_info'' := None)) query)"
  using tool_run_accepted [OF assms] by (simp add: execute_def split: prod.splits)

lemma run_code_submitted:
  "split_code_blocks py query = Inr blocks \<Longrightarrow>
   run_code py (Some TIMEOUT) ns query =
     (case submitted py ns blocks of
        Returns output ns' t \<Rightarrow>
          Returns () (ns'(''_stdout_info'' := if output \<noteq> [] then Some (PStr output) else None)) t
      | Throws e ns' t \<Rightarrow>
          (if is_Exception e then Returns () (ns'(''_exec_info'' \<mapsto> PExcInfo e)) t
           else Throws e ns' t)
      | Pending ns' \<Rightarrow> Pending ns')"
  by (cases blocks)
     (simp_all add: run_code_def submitted_def dict_pop_def Let_def split: outcome.splits)



lemma tool_run_accepted_fst:
  assumes "preprocess_raises py self query = None"
    and "\<not> truthy (dict_get (namespace self) ''_preprocess_info'' PNone)"
  shows "fst (tool_run py self query) =
           fst (run_with_return py ((namespace self)(''_preprocess_info'' := None)) query)"
  using tool_run_accepted [OF assms] by (simp split: prod.splits)

lemma format_exc_info_ok:
  "info_ok v \<Longrightarrow> truthy v \<Longrightarrow> \<exists>e. v = PExcInfo e \<and> format_exc_info v = Some (format_exception e)"
  by (cases v) simp_all

lemma run_with_return_status:
  "fst (run_with_return py ns query) = Some r \<Longrightarrow>
   (status r = ''success'' \<or> status r = ''error'') \<and> (status r = ''success'' \<longrightarrow> stderr r = [])"
  by (auto simp: run_with_return_def dict_pop_def Let_def split: if_splits option.splits)

lemma run_with_return_some:
  assumes "info_ok (dict_get (ns_of (run_code py (Some TIMEOUT) ns query)) ''_exec_info'' PNone)"
    and "is_str (dict_get (ns_of (run_code py (Some TIMEOUT) ns query)) ''_stdout_info'' (PStr []))"
  shows "\<exists>r. fst (run_with_return py ns query) = Some r \<and> is_str (stdout r)"
proof (cases "truthy (dict_get (ns_of (run_code py (Some TIMEOUT) ns query)) ''_exec_info'' PNone)")
  case True
  from format_exc_info_ok [OF assms(1) True] assms(2) True show ?thesis
    by (auto simp: run_with_return_def dict_pop_def Let_def)
next
  case False
  with assms(2) show ?thesis
    by (auto simp: run_with_return_def dict_pop_def Let_def)
qed

text \<open>The flag is set by the setup and by nothing else; no call clears it.\<close>

lemma setup_sets_flag:
  "interpreter_setup py self setup_code = Some (None, self') \<Longrightarrow> setup_done self'"
  by (auto simp: interpreter_setup_def split: outcome.splits)

lemma tool_run_keeps_flag: "setup_done (snd (tool_run py self query)) = setup_done self"
  by (cases "preprocess_raises py self query")
     (auto simp: tool_run_def preprocess_def Let_def dict_pop_def
       split: prod.splits option.splits)

lemma restricted_by_setup: "interpreter_setup demo_python unrestricted [] = Some (None, restricted)"
  by (simp add: interpreter_setup_def run_code_def run_blocks_def dict_pop_def demo_python_def
      demo_split_def split_by_parse_def strip_def restricted_def unrestricted_def)

section \<open>Rejection of imports and definitions\<close>




section \<open>Output reported with a fault\<close>

text \<open>
  Claim C2, evaluated where the code departs from it. After \<^verbatim>\<open>execute("y = 10")\<close>
  and \<^verbatim>\<open>execute("y + 5")\<close>, whose stdout is \<^verbatim>\<open>15\<close>, the call
  \<^verbatim>\<open>execute("1/0")\<close> prints nothing and yet reports the stdout \<^verbatim>\<open>15\<close>. Before
  the setup, \<^verbatim>\<open>print('a')\<close> followed by \<^verbatim>\<open>1/0\<close> prints a line and reports an
  empty stdout.
\<close>

theorem fault_reports_stale_stdout:
  "execute (after restricted ''y = 10'') ''y + 5'' =
     Some \<lparr>status = ''success'', stdout = PStr ''15'', stderr = []\<rparr>
   \<and> execute (after (after restricted ''y = 10'') ''y + 5'') ''1/0'' =
       Some \<lparr>status = ''error'', stdout = PStr ''15'',
             stderr = ''Traceback (most recent call last):\<newline>ZeroDivisionError: division by zero\<newline>''\<rparr>
   \<and> execute_code_blocks demo_python (Some TIMEOUT) Map.empty [''print('a')''] =
       Returns ''a\<newline>'' [''__builtins__'' \<mapsto> PObj ''<builtins>''] 0
   \<and> execute unrestricted ''print('a')\<newline>1/0'' =
       Some \<lparr>status = ''error'', stdout = PStr [],
             stderr = ''Traceback (most recent call last):\<newline>ZeroDivisionError: division by zero\<newline>''\<rparr>"
  by (simp add: demo_defs eng_defs)

section \<open>Before the setup\<close>

text \<open>
  Claim C3, as amended. While \<^verbatim>\<open>setup_done\<close> is false, every source that
  \<^verbatim>\<open>ast.parse\<close> accepts passes \<^verbatim>\<open>preprocess\<close> unchanged, whatever nodes its tree
  holds, and leaves the interpreter as it was; unless a truthy value sits under
  \<^verbatim>\<open>_preprocess_info\<close>, the call is then that of \<^verbatim>\<open>run_with_return\<close> on the source.
  A source that does not parse is rejected before the setup as well: the parse
  exception is stored and the call returns status \<^verbatim>\<open>error\<close> with its trace.
\<close>

theorem unrestricted_accepts_parsed_source:
  assumes "\<not> setup_done self"
  shows "(\<forall>tree. ast_parse py query = Inr tree \<longrightarrow>
            preprocess_raises py self query = None
          \<and> preprocess py self query = (query, self)
          \<and> (\<not> truthy (dict_get (namespace self) ''_preprocess_info'' PNone) \<longrightarrow>
               tool_run py self query =
                 (case run_with_return py ((namespace self)(''_preprocess_info'' := None)) query of
                    (r, ns') \<Rightarrow> (r, self\<lparr>namespace := ns'\<rparr>))))
       \<and> (\<forall>e. ast_parse py query = Inl e \<longrightarrow>
            preprocess_raises py self query = Some e
          \<and> preprocess py self query =
              ([], self\<lparr>namespace := (namespace self)(''_preprocess_info'' \<mapsto> PExcInfo e)\<rparr>)
          \<and> tool_run py self query =
              (Some \<lparr>status = ''error'', stdout = PStr [], stderr = format_exception e\<rparr>,
               self\<lparr>namespace := (namespace self)(''_preprocess_info'' := None)\<rparr>))"
  using assms
  by (simp add: preprocess_raises_def preprocess_def tool_run_def dict_pop_def dict_get_def)

text \<open>The theorem at \<^verbatim>\<open>import os\<close> before the setup: the import runs.\<close>

theorem unrestricted_accepts_parsed_source_witness:
  "preprocess demo_python unrestricted ''import os'' = (''import os'', unrestricted)
   \<and> execute unrestricted ''import os'' =
       Some \<lparr>status = ''success'', stdout = PStr [], stderr = []\<rparr>
   \<and> namespace (after unrestricted ''import os'') ''os'' = Some (PObj ''<module os>'')"
proof -
  have a: "\<not> setup_done unrestricted" by (simp add: unrestricted_def)
  have b: "ast_parse demo_python ''import os'' = Inr (module [import_os])"
    by (simp add: demo_python_def demo_parse_def)
  have c: "\<not> truthy (dict_get (namespace unrestricted) ''_preprocess_info'' PNone)"
    by (simp add: unrestricted_def dict_get_def)
  from unrestricted_accepts_parsed_source [OF a, of demo_python "''import os''"] b c
  have p: "preprocess demo_python unrestricted ''import os'' = (''import os'', unrestricted)"
    and r: "tool_run demo_python unrestricted ''import os'' =
          (case run_with_return demo_python
                  ((namespace unrestricted)(''_preprocess_info'' := None)) ''import os'' of
             (r, ns') \<Rightarrow> (r, unrestricted\<lparr>namespace := ns'\<rparr>))"
    by blast+
  have w: "run_with_return demo_python ((namespace unrestricted)(''_preprocess_info'' := None))
             ''import os'' =
           (Some \<lparr>status = ''success'', stdout = PStr [], stderr = []\<rparr>,
            Map.empty(''__builtins__'' \<mapsto> PObj ''<builtins>'',
                      ''os'' \<mapsto> PObj ''<module os>''))"
    by (simp add: demo_defs eng_defs)
  show ?thesis using p r w by (simp add: execute_def after_def)
qed

text \<open>
  Claim C3 as stated fails: before the setup, \<^verbatim>\<open>preprocess\<close> rejects the source
  \<^verbatim>\<open>x = \<close>, which does not parse.
\<close>

theorem unrestricted_counterexample:
  "\<not> setup_done unrestricted
   \<and> preprocess_raises demo_python unrestricted ''x = '' =
       Some syntax_error
   \<and> preprocess demo_python unrestricted ''x = '' =
       ([], unrestricted\<lparr>namespace :=
              Map.empty(''_preprocess_info'' \<mapsto> PExcInfo syntax_error)\<rparr>)
   \<and> execute unrestricted ''x = '' =
       Some \<lparr>status = ''error'', stdout = PStr [],
             stderr = ''Traceback (most recent call last):\<newline>SyntaxError: invalid syntax\<newline>''\<rparr>"
  by (simp add: demo_defs eng_defs)

section \<open>Calls outside the allow-lists\<close>




section \<open>Output reported with a timeout\<close>

text \<open>
  Claim C5, evaluated where the code departs from it. After \<^verbatim>\<open>execute("y = 10")\<close>
  and \<^verbatim>\<open>execute("y + 5")\<close>, the call \<^verbatim>\<open>execute("while True: pass")\<close> is still
  running when the 1200 seconds are over; it returns status \<^verbatim>\<open>error\<close> and the
  stderr \<^verbatim>\<open>Code execution timed out\<close>, and its stdout is the \<^verbatim>\<open>15\<close> of the earlier
  call, although it printed nothing.
\<close>

theorem timeout_reports_stale_stdout:
  "TIMEOUT = 1200
   \<and> execute (after restricted ''y = 10'') ''y + 5'' =
       Some \<lparr>status = ''success'', stdout = PStr ''15'', stderr = []\<rparr>
   \<and> submitted demo_python (namespace (after (after restricted ''y = 10'') ''y + 5''))
         [''while True: pass''] =
       Pending (namespace (after (after restricted ''y = 10'') ''y + 5''))
   \<and> execute (after (after restricted ''y = 10'') ''y + 5'') ''while True: pass'' =
       Some \<lparr>status = ''error'', stdout = PStr ''15'', stderr = ''Code execution timed out''\<rparr>"
  by (simp add: demo_defs eng_defs)

section \<open>The last statement group\<close>

text \<open>
  Claim C6, as amended. The last group is handled in two modes. When it compiles
  as an expression it is evaluated, and the text of its value, unless the value
  is \<^verbatim>\<open>None\<close>, is put into the output after what the earlier groups printed and
  before what the evaluation of the last group itself printed. When compiling it
  raises a \<^verbatim>\<open>SyntaxError\<close> it is executed as a statement and only what it printed
  is added. A call whose groups all return, and which finds nothing truthy under
  \<^verbatim>\<open>_exec_info\<close>, has status \<^verbatim>\<open>success\<close> with that output as stdout.
\<close>

theorem tail_group_two_modes:
  "(compile_eval py tail = None \<longrightarrow>
      eval_code py tail ns budget = Returns (v, printed) ns' t \<longrightarrow>
      execute_last_line py budget ns tail =
        Returns ((if v \<noteq> PNone then str_of py v else []) @ printed) ns' t)
   \<and> (compile_eval py tail = Some e \<longrightarrow> is_SyntaxError e \<longrightarrow>
      exec_code py tail ns budget = Returns (v, printed) ns' t \<longrightarrow>
      execute_last_line py budget ns tail = Returns printed ns' t)
   \<and> (split_code_blocks py query = Inr (body @ [tail]) \<longrightarrow> tail \<noteq> [] \<longrightarrow>
      execute_code_blocks py (Some TIMEOUT) ns_in body = Returns out ns_body t_body \<longrightarrow>
      compile_eval py tail = None \<longrightarrow>
      eval_code py tail ns_body (spend (Some TIMEOUT) t_body) = Returns (v, printed) ns_tail t_tail \<longrightarrow>
      \<not> truthy (dict_get ns_tail ''_exec_info'' PNone) \<longrightarrow>
      fst (run_with_return py ns_in query) =
        Some \<lparr>status = ''success'',
              stdout = PStr (out @ (if v \<noteq> PNone then str_of py v else []) @ printed),
              stderr = []\<rparr>)
   \<and> (split_code_blocks py query = Inr (body @ [tail]) \<longrightarrow> tail \<noteq> [] \<longrightarrow>
      execute_code_blocks py (Some TIMEOUT) ns_in body = Returns out ns_body t_body \<longrightarrow>
      compile_eval py tail = Some e \<longrightarrow> is_SyntaxError e \<longrightarrow>
      exec_code py tail ns_body (spend (Some TIMEOUT) t_body) = Returns (v, printed) ns_tail t_tail \<longrightarrow>
      \<not> truthy (dict_get ns_tail ''_exec_info'' PNone) \<longrightarrow>
      fst (run_with_return py ns_in query) =
        Some \<lparr>status = ''success'', stdout = PStr (out @ printed), stderr = []\<rparr>)"
proof (intro conjI impI)
  assume "compile_eval py tail = None"
    and "eval_code py tail ns budget = Returns (v, printed) ns' t"
  then show "execute_last_line py budget ns tail =
        Returns ((if v \<noteq> PNone then str_of py v else []) @ printed) ns' t"
    by (simp add: execute_last_line_def is_expression_def)
next
  assume "compile_eval py tail = Some e" and "is_SyntaxError e"
    and "exec_code py tail ns budget = Returns (v, printed) ns' t"
  then show "execute_last_line py budget ns tail = Returns printed ns' t"
    by (simp add: execute_last_line_def is_expression_def)
next
  assume s: "split_code_blocks py query = Inr (body @ [tail])" and n: "tail \<noteq> []"
    and b: "execute_code_blocks py (Some TIMEOUT) ns_in body = Returns out ns_body t_body"
    and c: "compile_eval py tail = None"
    and ev: "eval_code py tail ns_body (spend (Some TIMEOUT) t_body) = Returns (v, printed) ns_tail t_tail"
    and x: "\<not> truthy (dict_get ns_tail ''_exec_info'' PNone)"
  from c ev have "execute_last_line py (spend (Some TIMEOUT) t_body) ns_body tail =
        Returns ((if v \<noteq> PNone then str_of py v else []) @ printed) ns_tail t_tail"
    by (simp add: execute_last_line_def is_expression_def)
  from run_with_return_success [OF s n b this x]
  show "fst (run_with_return py ns_in query) =
        Some \<lparr>status = ''success'',
              stdout = PStr (out @ (if v \<noteq> PNone then str_of py v else []) @ printed),
              stderr = []\<rparr>" .
next
  assume s: "split_code_blocks py query = Inr (body @ [tail])" and n: "tail \<noteq> []"
    and b: "execute_code_blocks py (Some TIMEOUT) ns_in body = Returns out ns_body t_body"
    and c: "compile_eval py tail = Some e" "is_SyntaxError e"
    and ex: "exec_code py tail ns_body (spend (Some TIMEOUT) t_body) = Returns (v, printed) ns_tail t_tail"
    and x: "\<not> truthy (dict_get ns_tail ''_exec_info'' PNone)"
  from c ex have "execute_last_line py (spend (Some TIMEOUT) t_body) ns_body tail =
        Returns printed ns_tail t_tail"
    by (simp add: execute_last_line_def is_expression_def)
  from run_with_return_success [OF s n b this x]
  show "fst (run_with_return py ns_in query) =
        Some \<lparr>status = ''success'', stdout = PStr (out @ printed), stderr = []\<rparr>" .
qed

text \<open>
  The theorem at the two sources of the claim: \<^verbatim>\<open>x = 5\<close>, \<^verbatim>\<open>x + 1\<close> gives the
  stdout \<^verbatim>\<open>6\<close>, and \<^verbatim>\<open>x = 1\<close>, \<^verbatim>\<open>x = 2\<close> gives the empty stdout.
\<close>

theorem tail_group_two_modes_witness:
  "execute restricted ''x = 5\<newline>x + 1'' =
     Some \<lparr>status = ''success'', stdout = PStr ''6'', stderr = []\<rparr>
   \<and> execute restricted ''x = 1\<newline>x = 2'' =
     Some \<lparr>status = ''success'', stdout = PStr [], stderr = []\<rparr>"
proof -
  let ?b = "Map.empty(''__builtins__'' \<mapsto> PObj ''<builtins>'')"
  let ?ns = "(namespace restricted)(''_preprocess_info'' := None)"
  have "fst (run_with_return demo_python ?ns ''x = 5\<newline>x + 1'') =
          Some \<lparr>status = ''success'',
                stdout = PStr ([] @ (if PInt 6 \<noteq> PNone then str_of demo_python (PInt 6) else [])
                               @ []),
                stderr = []\<rparr>"
    using tail_group_two_modes [where py = demo_python and query = "''x = 5\<newline>x + 1''"
        and body = "[''x = 5'']" and tail = "''x + 1''" and ns_in = ?ns and out = "[]"
        and ns_body = "?b(''x'' \<mapsto> PInt 5)" and t_body = 0 and v = "PInt 6" and printed = "[]"
        and ns_tail = "?b(''x'' \<mapsto> PInt 5)" and t_tail = 0]
    by (simp add: demo_defs spend_def dict_get_def)
  then have one: "execute restricted ''x = 5\<newline>x + 1'' =
     Some \<lparr>status = ''success'', stdout = PStr ''6'', stderr = []\<rparr>"
    by (subst execute_accepted) (simp_all add: demo_defs eng_defs)
  have "fst (run_with_return demo_python ?ns ''x = 1\<newline>x = 2'') =
          Some \<lparr>status = ''success'', stdout = PStr ([] @ []), stderr = []\<rparr>"
    using tail_group_two_modes [where py = demo_python and query = "''x = 1\<newline>x = 2''"
        and body = "[''x = 1'']" and tail = "''x = 2''" and ns_in = ?ns and out = "[]"
        and ns_body = "?b(''x'' \<mapsto> PInt 1)" and t_body = 0 and v = "PNone" and printed = "[]"
        and e = "syntax_error"
        and ns_tail = "?b(''x'' \<mapsto> PInt 2)" and t_tail = 0]
    by (simp add: demo_defs spend_def dict_get_def is_SyntaxError_def)
  then have two: "execute restricted ''x = 1\<newline>x = 2'' =
     Some \<lparr>status = ''success'', stdout = PStr [], stderr = []\<rparr>"
    by (subst execute_accepted) (simp_all add: demo_defs eng_defs)
  from one two show ?thesis by simp
qed

text \<open>
  Claim C6 as stated fails for a last group that prints and has a value: before
  the setup, \<^verbatim>\<open>print('p') or ('v')\<close> prints a line and evaluates to \<^verbatim>\<open>v\<close>; the
  stdout is the value and then the line, not the value appended to what was
  captured.
\<close>

theorem tail_group_counterexample:
  "preprocess_raises demo_python unrestricted ''print('p') or ('v')'' = None
   \<and> split_code_blocks demo_python ''print('p') or ('v')'' = Inr [''print('p') or ('v')'']
   \<and> compile_eval demo_python ''print('p') or ('v')'' = None
   \<and> eval_code demo_python ''print('p') or ('v')'' Map.empty (Some TIMEOUT) =
       Returns (PStr ''v'', ''p\<newline>'') [''__builtins__'' \<mapsto> PObj ''<builtins>''] 0
   \<and> execute unrestricted ''print('p') or ('v')'' =
       Some \<lparr>status = ''success'', stdout = PStr ''vp\<newline>'', stderr = []\<rparr>
   \<and> ''vp\<newline>'' \<noteq> ''p\<newline>'' @ str_of demo_python (PStr ''v'')"
  by (simp add: demo_defs eng_defs)

section \<open>Persistence of the namespace\<close>




section \<open>The result of a call\<close>

text \<open>
  Where the result is well formed. Every result that \<^verbatim>\<open>_run\<close> returns has status
  \<^verbatim>\<open>success\<close> or \<^verbatim>\<open>error\<close>, and an empty stderr when the status is
  \<^verbatim>\<open>success\<close>. The call returns a result, with a string as stdout, when the
  values the caller reads from the namespace are well formed: nothing truthy
  other than an exception triple under \<^verbatim>\<open>_preprocess_info\<close> and \<^verbatim>\<open>_exec_info\<close>, and
  a string or nothing under \<^verbatim>\<open>_stdout_info\<close>. An \<^verbatim>\<open>Exception\<close> raised by the
  submitted code comes back as status \<^verbatim>\<open>error\<close> with its formatted trace. The
  entries are well formed after the worker, and again after the call, whenever
  they were before and the submitted code left \<^verbatim>\<open>_exec_info\<close> and
  \<^verbatim>\<open>_stdout_info\<close> as it found them.
\<close>

lemma result_well_formed:
  "(\<forall>r. fst (tool_run py self query) = Some r \<longrightarrow>
       (status r = ''success'' \<or> status r = ''error'')
     \<and> (status r = ''success'' \<longrightarrow> stderr r = []))
   \<and> ((preprocess_raises py self query = None \<longrightarrow>
          info_ok (dict_get (namespace self) ''_preprocess_info'' PNone)
        \<and> (\<not> truthy (dict_get (namespace self) ''_preprocess_info'' PNone) \<longrightarrow>
             info_ok (dict_get (ns_of (run_code py (Some TIMEOUT)
                        ((namespace self)(''_preprocess_info'' := None)) query))
                        ''_exec_info'' PNone)
           \<and> is_str (dict_get (ns_of (run_code py (Some TIMEOUT)
                        ((namespace self)(''_preprocess_info'' := None)) query))
                        ''_stdout_info'' (PStr [])))) \<longrightarrow>
       (\<exists>r. fst (tool_run py self query) = Some r \<and> is_str (stdout r)))
   \<and> (\<forall>blocks e ns' t.
        preprocess_raises py self query = None \<longrightarrow>
        \<not> truthy (dict_get (namespace self) ''_preprocess_info'' PNone) \<longrightarrow>
        split_code_blocks py query = Inr blocks \<longrightarrow>
        submitted py ((namespace self)(''_preprocess_info'' := None)) blocks = Throws e ns' t \<longrightarrow>
        is_Exception e \<longrightarrow>
        fst (tool_run py self query) =
          Some \<lparr>status = ''error'', stdout = dict_get ns' ''_stdout_info'' (PStr []),
                stderr = format_exception e\<rparr>)
   \<and> (\<forall>blocks ns.
        split_code_blocks py query = Inr blocks \<longrightarrow>
        info_ok (dict_get ns ''_exec_info'' PNone) \<longrightarrow>
        is_str (dict_get ns ''_stdout_info'' (PStr [])) \<longrightarrow>
        ns_of (submitted py ns blocks) ''_exec_info'' = ns ''_exec_info'' \<longrightarrow>
        ns_of (submitted py ns blocks) ''_stdout_info'' = ns ''_stdout_info'' \<longrightarrow>
          info_ok (dict_get (ns_of (run_code py (Some TIMEOUT) ns query)) ''_exec_info'' PNone)
        \<and> is_str (dict_get (ns_of (run_code py (Some TIMEOUT) ns query))
                     ''_stdout_info'' (PStr []))
        \<and> info_ok (dict_get (snd (run_with_return py ns query)) ''_exec_info'' PNone)
        \<and> is_str (dict_get (snd (run_with_return py ns query)) ''_stdout_info'' (PStr [])))"
proof (intro conjI allI impI)
  fix r
  assume r: "fst (tool_run py self query) = Some r"
  show "status r = ''success'' \<or> status r = ''error''"
  proof (cases "preprocess_raises py self query")
    case (Some e)
    with r show ?thesis
      by (auto simp: tool_run_def preprocess_def dict_pop_def dict_get_def)
  next
    case None
    show ?thesis
    proof (cases "truthy (dict_get (namespace self) ''_preprocess_info'' PNone)")
      case True
      with None r show ?thesis
        by (auto simp: tool_run_def preprocess_def dict_pop_def split: option.splits)
    next
      case False
      from r have "fst (run_with_return py ((namespace self)(''_preprocess_info'' := None)) query)
                    = Some r"
        by (simp add: tool_run_accepted_fst [OF None False])
      from run_with_return_status [OF this] show ?thesis by blast
    qed
  qed
next
  fix r
  assume r: "fst (tool_run py self query) = Some r" and s: "status r = ''success''"
  show "stderr r = []"
  proof (cases "preprocess_raises py self query")
    case (Some e)
    with r s show ?thesis
      by (auto simp: tool_run_def preprocess_def dict_pop_def dict_get_def)
  next
    case None
    show ?thesis
    proof (cases "truthy (dict_get (namespace self) ''_preprocess_info'' PNone)")
      case True
      with None r s show ?thesis
        by (auto simp: tool_run_def preprocess_def dict_pop_def split: option.splits)
    next
      case False
      from r have "fst (run_with_return py ((namespace self)(''_preprocess_info'' := None)) query)
                    = Some r"
        by (simp add: tool_run_accepted_fst [OF None False])
      from run_with_return_status [OF this] s show ?thesis by blast
    qed
  qed
next
  assume h: "preprocess_raises py self query = None \<longrightarrow>
          info_ok (dict_get (namespace self) ''_preprocess_info'' PNone)
        \<and> (\<not> truthy (dict_get (namespace self) ''_preprocess_info'' PNone) \<longrightarrow>
             info_ok (dict_get (ns_of (run_code py (Some TIMEOUT)
                        ((namespace self)(''_preprocess_info'' := None)) query))
                        ''_exec_info'' PNone)
           \<and> is_str (dict_get (ns_of (run_code py (Some TIMEOUT)
                        ((namespace self)(''_preprocess_info'' := None)) query))
                        ''_stdout_info'' (PStr [])))"
  show "\<exists>r. fst (tool_run py self query) = Some r \<and> is_str (stdout r)"
  proof (cases "preprocess_raises py self query")
    case (Some e)
    then show ?thesis
      by (simp add: tool_run_def preprocess_def dict_pop_def dict_get_def)
  next
    case None
    show ?thesis
    proof (cases "truthy (dict_get (namespace self) ''_preprocess_info'' PNone)")
      case True
      from h None have "info_ok (dict_get (namespace self) ''_preprocess_info'' PNone)" by blast
      from format_exc_info_ok [OF this True] None True show ?thesis
        by (auto simp: tool_run_def preprocess_def dict_pop_def)
    next
      case False
      from h None False
      have "\<exists>r. fst (run_with_return py ((namespace self)(''_preprocess_info'' := None)) query)
                    = Some r \<and> is_str (stdout r)"
        by (intro run_with_return_some) blast+
      then show ?thesis
        by (simp add: tool_run_accepted_fst [OF None False])
    qed
  qed
next
  fix blocks e ns' t
  assume a: "preprocess_raises py self query = None"
    and b: "\<not> truthy (dict_get (namespace self) ''_preprocess_info'' PNone)"
    and c: "split_code_blocks py query = Inr blocks"
    and d: "submitted py ((namespace self)(''_preprocess_info'' := None)) blocks = Throws e ns' t"
    and x: "is_Exception e"
  have "run_code py (Some TIMEOUT) ((namespace self)(''_preprocess_info'' := None)) query =
          Returns () (ns'(''_exec_info'' \<mapsto> PExcInfo e)) t"
    using d x by (simp add: run_code_submitted [OF c])
  then have "fst (run_with_return py ((namespace self)(''_preprocess_info'' := None)) query) =
          Some \<lparr>status = ''error'', stdout = dict_get ns' ''_stdout_info'' (PStr []),
                stderr = format_exception e\<rparr>"
    by (simp add: run_with_return_def dict_pop_def dict_get_def)
  then show "fst (tool_run py self query) =
          Some \<lparr>status = ''error'', stdout = dict_get ns' ''_stdout_info'' (PStr []),
                stderr = format_exception e\<rparr>"
    by (simp add: tool_run_accepted_fst [OF a b])
next
  fix blocks ns
  assume c: "split_code_blocks py query = Inr blocks"
    and i: "info_ok (dict_get ns ''_exec_info'' PNone)"
    and j: "is_str (dict_get ns ''_stdout_info'' (PStr []))"
    and k: "ns_of (submitted py ns blocks) ''_exec_info'' = ns ''_exec_info''"
    and l: "ns_of (submitted py ns blocks) ''_stdout_info'' = ns ''_stdout_info''"
  show x: "info_ok (dict_get (ns_of (run_code py (Some TIMEOUT) ns query)) ''_exec_info'' PNone)"
    using i k by (cases "submitted py ns blocks")
      (simp_all add: run_code_submitted [OF c] dict_get_def)
  show y: "is_str (dict_get (ns_of (run_code py (Some TIMEOUT) ns query))
                     ''_stdout_info'' (PStr []))"
    using j l by (cases "submitted py ns blocks")
      (simp_all add: run_code_submitted [OF c] dict_get_def)
  show "info_ok (dict_get (snd (run_with_return py ns query)) ''_exec_info'' PNone)"
    using x by (simp add: run_with_return_def dict_pop_def dict_get_def Let_def
        split: option.splits)
  show "is_str (dict_get (snd (run_with_return py ns query)) ''_stdout_info'' (PStr []))"
    using y by (simp add: run_with_return_def dict_pop_def dict_get_def Let_def
        split: option.splits)
qed

text \<open>The lemma at \<^verbatim>\<open>1/0\<close> on a fresh restricted interpreter.\<close>

lemma result_well_formed_at_fault:
  "(\<exists>r. execute restricted ''1/0'' = Some r \<and> is_str (stdout r))
   \<and> execute restricted ''1/0'' =
       Some \<lparr>status = ''error'', stdout = PStr [],
             stderr = ''Traceback (most recent call last):\<newline>ZeroDivisionError: division by zero\<newline>''\<rparr>"
proof -
  let ?ns = "(namespace restricted)(''_preprocess_info'' := None)"
  have a: "preprocess_raises demo_python restricted ''1/0'' = None"
    by (simp add: demo_defs eng_defs)
  have b: "info_ok (dict_get (namespace restricted) ''_preprocess_info'' PNone)"
    by (simp add: restricted_def dict_get_def)
  have c: "run_code demo_python (Some TIMEOUT) ?ns ''1/0'' =
             Returns () [''__builtins__'' \<mapsto> PObj ''<builtins>'',
                         ''_exec_info'' \<mapsto> PExcInfo zero_division] 0"
    by (simp add: demo_defs eng_defs)
  have d: "info_ok (dict_get (ns_of (run_code demo_python (Some TIMEOUT) ?ns ''1/0''))
                      ''_exec_info'' PNone)"
    unfolding c by (simp add: dict_get_def)
  have e: "is_str (dict_get (ns_of (run_code demo_python (Some TIMEOUT) ?ns ''1/0''))
                     ''_stdout_info'' (PStr []))"
    unfolding c by (simp add: dict_get_def)
  from result_well_formed [of demo_python restricted "''1/0''"] a b d e
  have "\<exists>r. fst (tool_run demo_python restricted ''1/0'') = Some r \<and> is_str (stdout r)"
    by blast
  then have one: "\<exists>r. execute restricted ''1/0'' = Some r \<and> is_str (stdout r)"
    by (simp add: execute_def)
  have two: "execute restricted ''1/0'' =
       Some \<lparr>status = ''error'', stdout = PStr [],
             stderr = ''Traceback (most recent call last):\<newline>ZeroDivisionError: division by zero\<newline>''\<rparr>"
    by (simp add: demo_defs eng_defs)
  from one two show ?thesis by blast
qed

text \<open>
  Claim C8, evaluated where the code departs from it. After setup, the source
  \<^verbatim>\<open>_exec_info = 1\<close> passes the checks and runs; the caller then finds the integer
  under \<^verbatim>\<open>_exec_info\<close>, and \<^verbatim>\<open>traceback.format_exception(*1)\<close> raises in the
  caller: \<^verbatim>\<open>_run\<close> returns no result. And \<^verbatim>\<open>_stdout_info = 7\<close> followed by
  \<^verbatim>\<open>1/0\<close> returns the integer 7 as stdout, which is no string.
\<close>

theorem overwritten_bookkeeping_breaks_result:
  "preprocess_raises demo_python restricted ''_exec_info = 1'' = None
   \<and> ns_of (run_code demo_python (Some TIMEOUT) (namespace restricted) ''_exec_info = 1'')
        ''_exec_info'' = Some (PInt 1)
   \<and> format_exc_info (PInt 1) = None
   \<and> execute restricted ''_exec_info = 1'' = None
   \<and> execute restricted ''_stdout_info = 7\<newline>1/0'' =
       Some \<lparr>status = ''error'', stdout = PInt 7,
             stderr = ''Traceback (most recent call last):\<newline>ZeroDivisionError: division by zero\<newline>''\<rparr>
   \<and> \<not> is_str (PInt 7)"
  by (simp add: demo_defs eng_defs)

section \<open>The method allow-list\<close>



section \<open>Bookkeeping in the shared namespace\<close>



end
